theory Spec2Isabelle
  imports Main
begin

section \<open>pandera/dtypes.py: the PandasDtype enumeration\<close>

text \<open>
  The module defines one enumeration, \<open>PandasDtype\<close>, whose members carry a string value,
  a derived property \<open>str_alias\<close>, two class-level lookups (\<open>from_str_alias\<close>,
  \<open>from_pandas_api_type\<close>) and overridden \<open>__eq__\<close> and \<open>__hash__\<close>.

  \<open>__hash__\<close> returns \<open>id(hash_obj)\<close> of a string object, so a string is modelled as an
  object: an identity together with its characters. \<open>==\<close> on strings compares the
  characters, \<open>id\<close> reads the identity.
\<close>

subsection \<open>Data model\<close>

text \<open>
  The members in the order of the source. \<open>Int\<close> is written \<open>Int_dtype\<close>: the plain name is
  taken by the ASCII notation for set intersection.
\<close>

datatype PandasDtype =
    Bool | DateTime | Timedelta | Category
  | Float | Float16 | Float32 | Float64
  | Int_dtype | Int8 | Int16 | Int32 | Int64
  | UInt8 | UInt16 | UInt32 | UInt64
  | Object | String

record pystr =
  ident :: nat
  chars :: string

text \<open>
  What the module holds once it is imported. The two defaults are computed at import time
  (\<open>str(pd.Series([1]).dtype)\<close> and \<open>str(pd.Series([1.]).dtype)\<close>, lines 25 and 26), so
  both their characters and their identities are parameters. The identities of the string
  constants of the class body (the value of each member, lines 89 to 112) and of the
  \<open>"object"\<close> constant of \<open>str_alias\<close> (line 120) are chosen by the interpreter, and are
  parameters as well.
\<close>

record module_env =
  DEFAULT_PANDAS_INT_TYPE :: pystr
  DEFAULT_PANDAS_FLOAT_TYPE :: pystr
  value_ident :: "PandasDtype \<Rightarrow> nat"
  object_const_ident :: nat

text \<open>
  The right operands of \<open>__eq__\<close>. The method has no \<open>isinstance\<close> test: besides the
  test for \<open>None\<close> it only reads one attribute of the operand, \<open>value\<close> or \<open>str_alias\<close>.
  So an operand is \<open>None\<close>, a member, a string, an integer, or any other object
  (\<open>PyObject\<close>), which is given by the two attributes that \<open>__eq__\<close> may read of it: its
  \<open>value\<close> and its \<open>str_alias\<close>, each missing (\<open>None\<close>) or a string. The member of another
  enumeration is such an object with a \<open>value\<close> and no \<open>str_alias\<close>.
\<close>

datatype pyval =
    PyNone
  | PyDtype PandasDtype
  | PyStr pystr
  | PyInt int
  | PyObject "pystr option" "pystr option"

datatype error = AttributeError

subsection \<open>Member values (lines 89 to 112)\<close>

fun value_literal :: "PandasDtype \<Rightarrow> string" where
  "value_literal Bool = ''bool''"
| "value_literal DateTime = ''datetime64[ns]''"
| "value_literal Timedelta = ''timedelta64[ns]''"
| "value_literal Category = ''category''"
| "value_literal Float = ''float''"
| "value_literal Float16 = ''float16''"
| "value_literal Float32 = ''float32''"
| "value_literal Float64 = ''float64''"
| "value_literal Int_dtype = ''int''"
| "value_literal Int8 = ''int8''"
| "value_literal Int16 = ''int16''"
| "value_literal Int32 = ''int32''"
| "value_literal Int64 = ''int64''"
| "value_literal UInt8 = ''uint8''"
| "value_literal UInt16 = ''uint16''"
| "value_literal UInt32 = ''uint32''"
| "value_literal UInt64 = ''uint64''"
| "value_literal Object = ''object''"
| "value_literal String = ''string''"

text \<open>\<open>self.value\<close>: the string object the member was declared with.\<close>

definition enum_value :: "module_env \<Rightarrow> PandasDtype \<Rightarrow> pystr" where
  "enum_value env self = \<lparr>ident = value_ident env self, chars = value_literal self\<rparr>"

subsection \<open>Dictionaries with string keys\<close>

text \<open>
  A dict literal is an association list; none of the three literals of the module repeats
  a key. \<open>d.get(k)\<close> is \<open>map_of d k\<close>, with \<open>None\<close> for Python's \<open>None\<close>;
  \<open>d.get(k, default)\<close> falls back to the default. Keys are compared by their characters.
\<close>

definition dict_get_default :: "(string \<times> 'v) list \<Rightarrow> string \<Rightarrow> 'v \<Rightarrow> 'v" where
  "dict_get_default d k dflt = (case map_of d k of Some v \<Rightarrow> v | None \<Rightarrow> dflt)"

subsection \<open>str_alias (lines 114 to 121)\<close>

definition str_alias_table :: "module_env \<Rightarrow> (string \<times> pystr) list" where
  "str_alias_table env =
     [(''int'', DEFAULT_PANDAS_INT_TYPE env),
      (''float'', DEFAULT_PANDAS_FLOAT_TYPE env),
      (''string'', \<lparr>ident = object_const_ident env, chars = ''object''\<rparr>)]"

definition str_alias :: "module_env \<Rightarrow> PandasDtype \<Rightarrow> pystr" where
  "str_alias env self =
     dict_get_default (str_alias_table env) (chars (enum_value env self)) (enum_value env self)"

subsection \<open>from_str_alias (lines 123 to 151)\<close>

definition from_str_alias_table :: "(string \<times> PandasDtype) list" where
  "from_str_alias_table =
     [(''bool'', Bool),
      (''datetime64[ns]'', DateTime),
      (''timedelta64[ns]'', Timedelta),
      (''category'', Category),
      (''float'', Float),
      (''float16'', Float16),
      (''float32'', Float32),
      (''float64'', Float64),
      (''int'', Int_dtype),
      (''int8'', Int8),
      (''int16'', Int16),
      (''int32'', Int32),
      (''int64'', Int64),
      (''uint8'', UInt8),
      (''uint16'', UInt16),
      (''uint32'', UInt32),
      (''uint64'', UInt64),
      (''object'', Object),
      (''string'', String)]"

definition from_str_alias :: "string \<Rightarrow> PandasDtype option" where
  "from_str_alias s = map_of from_str_alias_table s"

subsection \<open>from_pandas_api_type (lines 153 to 175)\<close>

text \<open>\<open>s.startswith(p)\<close>: the first \<open>len(p)\<close> characters of \<open>s\<close> are \<open>p\<close>.\<close>

definition startswith :: "string \<Rightarrow> string \<Rightarrow> bool" where
  "startswith s p = (take (length p) s = p)"

definition from_pandas_api_type_table :: "(string \<times> PandasDtype) list" where
  "from_pandas_api_type_table =
     [(''string'', String),
      (''floating'', Float),
      (''integer'', Int_dtype),
      (''categorical'', Category),
      (''boolean'', Bool),
      (''datetime64'', DateTime),
      (''datetime'', DateTime),
      (''timedelta64'', Timedelta),
      (''timedelta'', Timedelta)]"

definition from_pandas_api_type :: "string \<Rightarrow> PandasDtype option" where
  "from_pandas_api_type pandas_api_type =
     (if startswith pandas_api_type ''mixed'' then Some Object
      else map_of from_pandas_api_type_table pandas_api_type)"

subsection \<open>Equality and hash (lines 177 to 193)\<close>

text \<open>
  \<open>other.value\<close> and \<open>other.str_alias\<close>: a member has both attributes; \<open>None\<close>, a string
  and an integer have neither, and the access raises \<open>AttributeError\<close>; another object
  has the attributes it was given.
\<close>

fun getattr_value :: "module_env \<Rightarrow> pyval \<Rightarrow> error + pystr" where
  "getattr_value env (PyDtype t) = Inr (enum_value env t)"
| "getattr_value env PyNone = Inl AttributeError"
| "getattr_value env (PyStr s) = Inl AttributeError"
| "getattr_value env (PyInt n) = Inl AttributeError"
| "getattr_value env (PyObject None a) = Inl AttributeError"
| "getattr_value env (PyObject (Some x) a) = Inr x"

fun getattr_str_alias :: "module_env \<Rightarrow> pyval \<Rightarrow> error + pystr" where
  "getattr_str_alias env (PyDtype t) = Inr (str_alias env t)"
| "getattr_str_alias env PyNone = Inl AttributeError"
| "getattr_str_alias env (PyStr s) = Inl AttributeError"
| "getattr_str_alias env (PyInt n) = Inl AttributeError"
| "getattr_str_alias env (PyObject b None) = Inl AttributeError"
| "getattr_str_alias env (PyObject b (Some y)) = Inr y"

text \<open>\<open>__eq__\<close>: the three branches in the order of the source.\<close>

definition dtype_eq :: "module_env \<Rightarrow> PandasDtype \<Rightarrow> pyval \<Rightarrow> error + bool" where
  "dtype_eq env self other =
     (if other = PyNone then Inr False
      else if chars (enum_value env self) = ''string'' then
        (case getattr_value env other of
           Inl e \<Rightarrow> Inl e
         | Inr v \<Rightarrow> Inr (chars (enum_value env self) = chars v))
      else
        (case getattr_str_alias env other of
           Inl e \<Rightarrow> Inl e
         | Inr a \<Rightarrow> Inr (chars (str_alias env self) = chars a)))"

text \<open>\<open>__hash__\<close>: \<open>id\<close> of the chosen string object.\<close>

definition dtype_hash :: "module_env \<Rightarrow> PandasDtype \<Rightarrow> nat" where
  "dtype_hash env self =
     (let hash_obj =
        (if self = Int_dtype then DEFAULT_PANDAS_INT_TYPE env
         else if self = Float then DEFAULT_PANDAS_FLOAT_TYPE env
         else str_alias env self)
      in ident hash_obj)"

subsection \<open>Two module states\<close>

text \<open>
  The string constants of the class body, numbered in the order of the source. A constant
  is one object, and two constants with different characters are two objects.
\<close>

fun const_ident :: "PandasDtype \<Rightarrow> nat" where
  "const_ident Bool = 0"
| "const_ident DateTime = 1"
| "const_ident Timedelta = 2"
| "const_ident Category = 3"
| "const_ident Float = 4"
| "const_ident Float16 = 5"
| "const_ident Float32 = 6"
| "const_ident Float64 = 7"
| "const_ident Int_dtype = 8"
| "const_ident Int8 = 9"
| "const_ident Int16 = 10"
| "const_ident Int32 = 11"
| "const_ident Int64 = 12"
| "const_ident UInt8 = 13"
| "const_ident UInt16 = 14"
| "const_ident UInt32 = 15"
| "const_ident UInt64 = 16"
| "const_ident Object = 17"
| "const_ident String = 18"

text \<open>
  The module as imported where pandas gives \<open>pd.Series([1])\<close> the dtype \<open>int64\<close> and
  \<open>pd.Series([1.])\<close> the dtype \<open>float64\<close>. The two defaults are the results of the calls
  \<open>str(...)\<close> of lines 25 and 26: strings built while the module is imported, objects of
  their own (identities 100 and 101), distinct from every constant of the class body. The
  \<open>"object"\<close> constant of \<open>str_alias\<close> is the object that \<open>Object\<close> has as its value: the
  interpreter shares equal constants that are spelled like identifiers.
\<close>

definition env64 :: module_env where
  "env64 =
     \<lparr>DEFAULT_PANDAS_INT_TYPE = \<lparr>ident = 100, chars = ''int64''\<rparr>,
      DEFAULT_PANDAS_FLOAT_TYPE = \<lparr>ident = 101, chars = ''float64''\<rparr>,
      value_ident = const_ident,
      object_const_ident = const_ident Object\<rparr>"

text \<open>The same where the default integer dtype is \<open>int32\<close>.\<close>

definition env32 :: module_env where
  "env32 =
     \<lparr>DEFAULT_PANDAS_INT_TYPE = \<lparr>ident = 100, chars = ''int32''\<rparr>,
      DEFAULT_PANDAS_FLOAT_TYPE = \<lparr>ident = 101, chars = ''float64''\<rparr>,
      value_ident = const_ident,
      object_const_ident = const_ident Object\<rparr>"

section \<open>Properties\<close>

subsection \<open>Evaluation of the lookups\<close>

lemma str_alias_chars:
  "chars (str_alias env t) =
     (if t = Int_dtype then chars (DEFAULT_PANDAS_INT_TYPE env)
      else if t = Float then chars (DEFAULT_PANDAS_FLOAT_TYPE env)
      else if t = String then ''object''
      else value_literal t)"
  by (cases t) (simp_all add: str_alias_def str_alias_table_def dict_get_default_def enum_value_def)

text \<open>
  C8: \<open>from_str_alias("category")\<close> is \<open>Category\<close>, \<open>from_str_alias("object")\<close> is
  \<open>Object\<close> and \<open>from_str_alias("string")\<close> is \<open>String\<close>, although the \<open>str_alias\<close> of
  \<open>String\<close> is \<open>"object"\<close>: the string that \<open>String\<close> resolves to leads back to \<open>Object\<close>,
  not to \<open>String\<close>.
\<close>

theorem from_str_alias_asymmetric_for_String:
  "from_str_alias ''category'' = Some Category \<and>
   from_str_alias ''object'' = Some Object \<and>
   from_str_alias ''string'' = Some String \<and>
   chars (str_alias env String) = ''object'' \<and>
   from_str_alias (chars (str_alias env String)) = Some Object"
  by (simp add: from_str_alias_def from_str_alias_table_def str_alias_chars)

subsection \<open>str_alias\<close>

text \<open>
  C3: \<open>str_alias\<close> is defined on every member. It sends \<open>Int\<close> to the cached default
  integer string and \<open>Float\<close> to the cached default float string (the cached objects
  themselves), \<open>String\<close> to \<open>"object"\<close>, and every other member to its own declared value.
  In particular it gives \<open>"int64"\<close> where the cached default is \<open>"int64"\<close> and \<open>"int32"\<close>
  where it is \<open>"int32"\<close>. The source has no failing path: \<open>dict.get\<close> with a default
  returns the default on a missing key, so the model has no error result.
\<close>

theorem str_alias_total:
  "str_alias env Int_dtype = DEFAULT_PANDAS_INT_TYPE env \<and>
   str_alias env Float = DEFAULT_PANDAS_FLOAT_TYPE env \<and>
   chars (str_alias env String) = ''object'' \<and>
   (t \<notin> {Int_dtype, Float, String} \<longrightarrow>
      str_alias env t = enum_value env t \<and> chars (str_alias env t) = value_literal t) \<and>
   (chars (DEFAULT_PANDAS_INT_TYPE env) = ''int64'' \<longrightarrow>
      chars (str_alias env Int_dtype) = ''int64'') \<and>
   (chars (DEFAULT_PANDAS_INT_TYPE env) = ''int32'' \<longrightarrow>
      chars (str_alias env Int_dtype) = ''int32'')"
  by (cases t)
    (simp_all add: str_alias_def str_alias_table_def dict_get_default_def enum_value_def)

theorem str_alias_total_witness:
  "Bool \<notin> {Int_dtype, Float, String} \<and>
   chars (str_alias env64 Bool) = ''bool'' \<and>
   chars (DEFAULT_PANDAS_INT_TYPE env64) = ''int64'' \<and>
   chars (str_alias env64 Int_dtype) = ''int64'' \<and>
   chars (DEFAULT_PANDAS_INT_TYPE env32) = ''int32'' \<and>
   chars (str_alias env32 Int_dtype) = ''int32'' \<and>
   chars (str_alias env64 Float) = ''float64''"
  using str_alias_total [of env64 Bool] str_alias_total [of env32 Bool]
  by (simp add: env64_def env32_def enum_value_def)

subsection \<open>Equality\<close>

lemma value_literal_string: "value_literal a = ''string'' \<longleftrightarrow> a = String"
  by (cases a) simp_all

lemma dtype_eq_PyNone: "dtype_eq env a PyNone = Inr False"
  by (simp add: dtype_eq_def)

lemma dtype_eq_PyDtype:
  "dtype_eq env a (PyDtype b) =
     Inr (if a = String then b = String
          else chars (str_alias env a) = chars (str_alias env b))"
  by (simp add: dtype_eq_def enum_value_def value_literal_string eq_commute [of "''string''"])

lemma dtype_eq_PyStr: "dtype_eq env a (PyStr s) = Inl AttributeError"
  by (simp add: dtype_eq_def)

lemma dtype_eq_PyInt: "dtype_eq env a (PyInt n) = Inl AttributeError"
  by (simp add: dtype_eq_def)

text \<open>
  C1: for members \<open>a\<close> and \<open>b\<close>, \<open>a == None\<close> is false; \<open>a == b\<close> is, when the declared
  value of \<open>a\<close> is \<open>"string"\<close>, whether the declared value of \<open>b\<close> is \<open>"string"\<close> too, and
  otherwise whether the two resolved strings (\<open>str_alias\<close>) have the same characters. In
  particular \<open>Int\<close> equals the fixed-width member whose value is the cached default
  integer string, and \<open>Float\<close> the one whose value is the cached default float string.
\<close>

theorem dtype_eq_spec:
  "dtype_eq env a PyNone = Inr False \<and>
   dtype_eq env a (PyDtype b) =
     Inr (if value_literal a = ''string'' then value_literal b = ''string''
          else chars (str_alias env a) = chars (str_alias env b)) \<and>
   (b \<in> {Float16, Float32, Float64, Int8, Int16, Int32, Int64,
          UInt8, UInt16, UInt32, UInt64} \<and>
    value_literal b = chars (DEFAULT_PANDAS_INT_TYPE env) \<longrightarrow>
      dtype_eq env Int_dtype (PyDtype b) = Inr True) \<and>
   (b \<in> {Float16, Float32, Float64, Int8, Int16, Int32, Int64,
          UInt8, UInt16, UInt32, UInt64} \<and>
    value_literal b = chars (DEFAULT_PANDAS_FLOAT_TYPE env) \<longrightarrow>
      dtype_eq env Float (PyDtype b) = Inr True)"
proof -
  have none: "dtype_eq env a PyNone = Inr False"
    by (rule dtype_eq_PyNone)
  have member: "dtype_eq env a (PyDtype b) =
     Inr (if value_literal a = ''string'' then value_literal b = ''string''
          else chars (str_alias env a) = chars (str_alias env b))"
    by (simp add: dtype_eq_PyDtype value_literal_string)
  have fixed: "chars (str_alias env b) = value_literal b"
    if "b \<in> {Float16, Float32, Float64, Int8, Int16, Int32, Int64,
          UInt8, UInt16, UInt32, UInt64}"
    using that by (auto simp: str_alias_chars)
  have int: "dtype_eq env Int_dtype (PyDtype b) = Inr True"
    if "b \<in> {Float16, Float32, Float64, Int8, Int16, Int32, Int64,
          UInt8, UInt16, UInt32, UInt64}"
      and "value_literal b = chars (DEFAULT_PANDAS_INT_TYPE env)"
    using fixed [OF that(1)] that(2) by (simp add: dtype_eq_PyDtype str_alias_chars)
  have float: "dtype_eq env Float (PyDtype b) = Inr True"
    if "b \<in> {Float16, Float32, Float64, Int8, Int16, Int32, Int64,
          UInt8, UInt16, UInt32, UInt64}"
      and "value_literal b = chars (DEFAULT_PANDAS_FLOAT_TYPE env)"
    using fixed [OF that(1)] that(2) by (simp add: dtype_eq_PyDtype str_alias_chars)
  from none member int float show ?thesis
    by blast
qed

theorem dtype_eq_spec_witness:
  "value_literal Int64 = chars (DEFAULT_PANDAS_INT_TYPE env64) \<and>
   dtype_eq env64 Int_dtype (PyDtype Int64) = Inr True \<and>
   value_literal Float64 = chars (DEFAULT_PANDAS_FLOAT_TYPE env64) \<and>
   dtype_eq env64 Float (PyDtype Float64) = Inr True \<and>
   dtype_eq env64 Int_dtype (PyDtype Int32) = Inr False"
  using dtype_eq_spec [of env64 Int_dtype Int64] dtype_eq_spec [of env64 Float Float64]
    dtype_eq_spec [of env64 Int_dtype Int32]
  by (simp add: env64_def str_alias_chars)

text \<open>
  C7: \<open>Int == Int\<close> is true; \<open>Int == Float\<close> is false when the cached default integer
  string differs from the cached default float string; \<open>String == Object\<close> is false; and
  \<open>t == None\<close> is false for every member \<open>t\<close>.
\<close>

theorem dtype_eq_examples:
  "dtype_eq env Int_dtype (PyDtype Int_dtype) = Inr True \<and>
   (chars (DEFAULT_PANDAS_INT_TYPE env) \<noteq> chars (DEFAULT_PANDAS_FLOAT_TYPE env) \<longrightarrow>
      dtype_eq env Int_dtype (PyDtype Float) = Inr False) \<and>
   dtype_eq env String (PyDtype Object) = Inr False \<and>
   dtype_eq env t PyNone = Inr False"
  by (simp add: dtype_eq_PyDtype dtype_eq_PyNone str_alias_chars)

theorem dtype_eq_examples_witness:
  "chars (DEFAULT_PANDAS_INT_TYPE env64) \<noteq> chars (DEFAULT_PANDAS_FLOAT_TYPE env64) \<and>
   dtype_eq env64 Int_dtype (PyDtype Float) = Inr False \<and>
   dtype_eq env64 Int_dtype (PyDtype Int_dtype) = Inr True \<and>
   dtype_eq env64 String (PyDtype Object) = Inr False \<and>
   dtype_eq env64 Category PyNone = Inr False"
  using dtype_eq_examples [of env64 Category]
  by (simp add: env64_def)

text \<open>
  C9: equality is not symmetric. \<open>Object == String\<close> is true, because only the left
  operand is tested for the value \<open>"string"\<close> and both members resolve to \<open>"object"\<close>;
  \<open>String == Object\<close> is false. So there are members \<open>a\<close>, \<open>b\<close> with \<open>a == b\<close> and not
  \<open>b == a\<close>.
\<close>

theorem dtype_eq_not_symmetric:
  "dtype_eq env Object (PyDtype String) = Inr True \<and>
   dtype_eq env String (PyDtype Object) = Inr False \<and>
   chars (str_alias env Object) = ''object'' \<and>
   chars (str_alias env String) = ''object'' \<and>
   (\<exists>a b. dtype_eq env a (PyDtype b) = Inr True \<and> dtype_eq env b (PyDtype a) = Inr False)"
proof -
  have l: "dtype_eq env Object (PyDtype String) = Inr True"
    by (simp add: dtype_eq_PyDtype str_alias_chars)
  have r: "dtype_eq env String (PyDtype Object) = Inr False"
    by (simp add: dtype_eq_PyDtype)
  have s: "chars (str_alias env Object) = ''object''" "chars (str_alias env String) = ''object''"
    by (simp_all add: str_alias_chars)
  from l r s show ?thesis
    by blast
qed

text \<open>
  C10: for every member \<open>t\<close> and every right operand \<open>v\<close> other than \<open>None\<close> that lacks
  the attribute \<open>__eq__\<close> reads of it (\<open>value\<close> when \<open>t\<close> is \<open>String\<close>, \<open>str_alias\<close> for every
  other member), \<open>t == v\<close> raises \<open>AttributeError\<close> instead of returning false; a string
  and a number lack both attributes, so they raise for every member. An operand that is
  not a member but has the attribute, as a string, gets a truth value: \<open>String == v\<close> is
  whether \<open>v.value\<close> is \<open>"string"\<close>, and for any other member \<open>t == v\<close> is whether the
  resolved string of \<open>t\<close> has the characters of \<open>v.str_alias\<close>.
\<close>

theorem dtype_eq_raises_on_missing_attribute:
  "(v \<noteq> PyNone \<and> getattr_value env v = Inl AttributeError \<longrightarrow>
      dtype_eq env String v = Inl AttributeError) \<and>
   (t \<noteq> String \<and> v \<noteq> PyNone \<and> getattr_str_alias env v = Inl AttributeError \<longrightarrow>
      dtype_eq env t v = Inl AttributeError) \<and>
   dtype_eq env t (PyStr s) = Inl AttributeError \<and>
   dtype_eq env t (PyInt n) = Inl AttributeError \<and>
   dtype_eq env String (PyObject None a) = Inl AttributeError \<and>
   (t \<noteq> String \<longrightarrow> dtype_eq env t (PyObject b None) = Inl AttributeError) \<and>
   dtype_eq env String (PyObject (Some x) a) = Inr (''string'' = chars x) \<and>
   (t \<noteq> String \<longrightarrow>
      dtype_eq env t (PyObject b (Some y)) = Inr (chars (str_alias env t) = chars y))"
proof -
  have string: "chars (enum_value env String) = ''string''"
    by (simp add: enum_value_def)
  have other: "chars (enum_value env t) \<noteq> ''string''" if "t \<noteq> String"
    using that by (simp add: enum_value_def value_literal_string)
  have 1: "dtype_eq env String v = Inl AttributeError"
    if "v \<noteq> PyNone" "getattr_value env v = Inl AttributeError"
    using that string by (simp add: dtype_eq_def)
  have 2: "dtype_eq env t v = Inl AttributeError"
    if "t \<noteq> String" "v \<noteq> PyNone" "getattr_str_alias env v = Inl AttributeError"
    using that other by (simp add: dtype_eq_def)
  have 3: "dtype_eq env t (PyStr s) = Inl AttributeError"
    by (rule dtype_eq_PyStr)
  have 4: "dtype_eq env t (PyInt n) = Inl AttributeError"
    by (rule dtype_eq_PyInt)
  have 5: "dtype_eq env String (PyObject None a) = Inl AttributeError"
    using string by (simp add: dtype_eq_def)
  have 6: "dtype_eq env t (PyObject b None) = Inl AttributeError" if "t \<noteq> String"
    using other [OF that] by (simp add: dtype_eq_def)
  have 7: "dtype_eq env String (PyObject (Some x) a) = Inr (''string'' = chars x)"
    using string by (simp add: dtype_eq_def)
  have 8: "dtype_eq env t (PyObject b (Some y)) = Inr (chars (str_alias env t) = chars y)"
    if "t \<noteq> String"
    using other [OF that] by (simp add: dtype_eq_def)
  from 1 2 3 4 5 6 7 8 show ?thesis
    by blast
qed

theorem dtype_eq_raises_on_missing_attribute_witness:
  "PyStr \<lparr>ident = 200, chars = ''string''\<rparr> \<noteq> PyNone \<and>
   getattr_value env64 (PyStr \<lparr>ident = 200, chars = ''string''\<rparr>) = Inl AttributeError \<and>
   dtype_eq env64 String (PyStr \<lparr>ident = 200, chars = ''string''\<rparr>) = Inl AttributeError \<and>
   Int64 \<noteq> String \<and>
   PyInt 64 \<noteq> PyNone \<and>
   getattr_str_alias env64 (PyInt 64) = Inl AttributeError \<and>
   dtype_eq env64 Int64 (PyInt 64) = Inl AttributeError \<and>
   dtype_eq env64 Int64 (PyObject (Some \<lparr>ident = 201, chars = ''int64''\<rparr>) None) =
     Inl AttributeError \<and>
   dtype_eq env64 Int64 (PyObject None (Some \<lparr>ident = 202, chars = ''int64''\<rparr>)) =
     Inr True"
  using dtype_eq_raises_on_missing_attribute
          [where v = "PyStr \<lparr>ident = 200, chars = ''string''\<rparr>" and env = env64
             and t = Int64]
        dtype_eq_raises_on_missing_attribute
          [where v = "PyInt 64" and env = env64 and t = Int64
             and b = "Some \<lparr>ident = 201, chars = ''int64''\<rparr>"
             and y = "\<lparr>ident = 202, chars = ''int64''\<rparr>"]
  by (simp add: str_alias_chars)

text \<open>
  The statement for every operand that is neither a member nor \<open>None\<close> fails: the member
  of another enumeration whose value is \<open>"string"\<close> equals \<open>String\<close>, one whose value is
  \<open>"red"\<close> is unequal to it, and an object whose \<open>str_alias\<close> is \<open>"int64"\<close> equals \<open>Int64\<close>,
  all three without an exception.
\<close>

theorem dtype_eq_foreign_operand_counterexample:
  "PyObject (Some \<lparr>ident = 300, chars = ''string''\<rparr>) None \<noteq> PyNone \<and>
   dtype_eq env64 String (PyObject (Some \<lparr>ident = 300, chars = ''string''\<rparr>) None) =
     Inr True \<and>
   dtype_eq env64 String (PyObject (Some \<lparr>ident = 301, chars = ''red''\<rparr>) None) =
     Inr False \<and>
   dtype_eq env64 Int64 (PyObject None (Some \<lparr>ident = 302, chars = ''int64''\<rparr>)) =
     Inr True \<and>
   dtype_eq env64 String (PyObject (Some \<lparr>ident = 301, chars = ''red''\<rparr>) None) \<noteq>
     Inl AttributeError"
  by (simp add: dtype_eq_def enum_value_def str_alias_def str_alias_table_def
      dict_get_default_def env64_def)

subsection \<open>The lookups\<close>

lemma startswith_mixed: "startswith s ''mixed'' \<longleftrightarrow> (\<exists>rest. s = ''mixed'' @ rest)"
proof
  assume "startswith s ''mixed''"
  then have "take (length ''mixed'') s = ''mixed''"
    by (simp only: startswith_def)
  then have "s = ''mixed'' @ drop (length ''mixed'') s"
    by (metis append_take_drop_id)
  then show "\<exists>rest. s = ''mixed'' @ rest" ..
next
  assume "\<exists>rest. s = ''mixed'' @ rest"
  then show "startswith s ''mixed''"
    by (auto simp: startswith_def)
qed

lemma from_pandas_api_type_table_lookup:
  "map_of from_pandas_api_type_table s =
     (if s = ''string'' then Some String
      else if s = ''floating'' then Some Float
      else if s = ''integer'' then Some Int_dtype
      else if s = ''categorical'' then Some Category
      else if s = ''boolean'' then Some Bool
      else if s = ''datetime64'' then Some DateTime
      else if s = ''datetime'' then Some DateTime
      else if s = ''timedelta64'' then Some Timedelta
      else if s = ''timedelta'' then Some Timedelta
      else None)"
  by (simp add: from_pandas_api_type_table_def)

text \<open>
  C5: if \<open>s\<close> begins with \<open>"mixed"\<close>, \<open>from_pandas_api_type(s)\<close> is \<open>Object\<close>; so it is for
  \<open>"mixed"\<close>, \<open>"mixed-integer"\<close> and \<open>"mixed-integer-float"\<close>. Otherwise the result is the
  entry of \<open>s\<close> in the table of the nine keys \<open>string\<close>, \<open>floating\<close>, \<open>integer\<close>,
  \<open>categorical\<close>, \<open>boolean\<close>, \<open>datetime64\<close>, \<open>datetime\<close>, \<open>timedelta64\<close>, \<open>timedelta\<close>,
  and absent when \<open>s\<close> is none of them.
\<close>

theorem from_pandas_api_type_spec:
  "from_pandas_api_type (''mixed'' @ rest) = Some Object \<and>
   from_pandas_api_type ''mixed'' = Some Object \<and>
   from_pandas_api_type ''mixed-integer'' = Some Object \<and>
   from_pandas_api_type ''mixed-integer-float'' = Some Object \<and>
   ((\<forall>r. s \<noteq> ''mixed'' @ r) \<longrightarrow>
      from_pandas_api_type s =
        (if s = ''string'' then Some String
         else if s = ''floating'' then Some Float
         else if s = ''integer'' then Some Int_dtype
         else if s = ''categorical'' then Some Category
         else if s = ''boolean'' then Some Bool
         else if s = ''datetime64'' then Some DateTime
         else if s = ''datetime'' then Some DateTime
         else if s = ''timedelta64'' then Some Timedelta
         else if s = ''timedelta'' then Some Timedelta
         else None))"
proof -
  have prefix_rule: "from_pandas_api_type (''mixed'' @ r) = Some Object" for r
    by (simp add: from_pandas_api_type_def startswith_def)
  have table: "from_pandas_api_type s = map_of from_pandas_api_type_table s"
    if "\<forall>r. s \<noteq> ''mixed'' @ r"
    using that by (simp add: from_pandas_api_type_def startswith_mixed)
  show ?thesis
    using prefix_rule [of rest] prefix_rule [of "[]"] prefix_rule [of "''-integer''"]
      prefix_rule [of "''-integer-float''"] table
    by (simp add: from_pandas_api_type_table_lookup)
qed

theorem from_pandas_api_type_spec_witness:
  "from_pandas_api_type ''mixed-up'' = Some Object \<and>
   (\<forall>r. ''floating'' \<noteq> ''mixed'' @ r) \<and>
   from_pandas_api_type ''floating'' = Some Float \<and>
   from_pandas_api_type ''timedelta'' = Some Timedelta \<and>
   from_pandas_api_type ''integers'' = None"
  using from_pandas_api_type_spec [of "''-up''" "''floating''"]
    from_pandas_api_type_spec [of "''-up''" "''timedelta''"]
    from_pandas_api_type_spec [of "''-up''" "''integers''"]
  by simp

text \<open>
  C6: on a string, neither lookup has a failing path (\<open>dict.get\<close> and \<open>str.startswith\<close>
  do not raise), so each returns a member or \<open>None\<close>; and \<open>None\<close> is returned exactly for
  the strings that are not recognised: for \<open>from_str_alias\<close> those outside its nineteen
  keys, for \<open>from_pandas_api_type\<close> those outside its nine keys that do not begin with
  \<open>"mixed"\<close>. In particular \<open>from_str_alias("not-a-real-dtype")\<close> and
  \<open>from_pandas_api_type("unknown")\<close> are \<open>None\<close>.
\<close>

theorem lookups_absent_on_unrecognized:
  "(from_str_alias s = None \<longleftrightarrow>
      s \<notin> {''bool'', ''datetime64[ns]'', ''timedelta64[ns]'', ''category'',
            ''float'', ''float16'', ''float32'', ''float64'',
            ''int'', ''int8'', ''int16'', ''int32'', ''int64'',
            ''uint8'', ''uint16'', ''uint32'', ''uint64'', ''object'', ''string''}) \<and>
   (from_pandas_api_type s = None \<longleftrightarrow>
      \<not> (\<exists>r. s = ''mixed'' @ r) \<and>
      s \<notin> {''string'', ''floating'', ''integer'', ''categorical'', ''boolean'',
            ''datetime64'', ''datetime'', ''timedelta64'', ''timedelta''}) \<and>
   ((\<exists>v. from_str_alias s = Some v) \<or> from_str_alias s = None) \<and>
   ((\<exists>v. from_pandas_api_type s = Some v) \<or> from_pandas_api_type s = None) \<and>
   from_str_alias ''not-a-real-dtype'' = None \<and>
   from_pandas_api_type ''unknown'' = None"
proof -
  have a: "from_str_alias s = None \<longleftrightarrow>
      s \<notin> {''bool'', ''datetime64[ns]'', ''timedelta64[ns]'', ''category'',
            ''float'', ''float16'', ''float32'', ''float64'',
            ''int'', ''int8'', ''int16'', ''int32'', ''int64'',
            ''uint8'', ''uint16'', ''uint32'', ''uint64'', ''object'', ''string''}"
    by (simp add: from_str_alias_def from_str_alias_table_def)
  have b: "from_pandas_api_type s = None \<longleftrightarrow>
      \<not> (\<exists>r. s = ''mixed'' @ r) \<and>
      s \<notin> {''string'', ''floating'', ''integer'', ''categorical'', ''boolean'',
            ''datetime64'', ''datetime'', ''timedelta64'', ''timedelta''}"
    unfolding from_pandas_api_type_def startswith_mixed from_pandas_api_type_table_lookup
    by simp
  have c: "from_str_alias ''not-a-real-dtype'' = None"
    by (simp add: from_str_alias_def from_str_alias_table_def)
  have d: "from_pandas_api_type ''unknown'' = None"
    by (simp add: from_pandas_api_type_def startswith_def from_pandas_api_type_table_def)
  from a b c d show ?thesis
    by blast
qed

subsection \<open>Round trip through str_alias\<close>

lemma from_str_alias_value_literal: "from_str_alias (value_literal t) = Some t"
  by (cases t) (simp_all add: from_str_alias_def from_str_alias_table_def)

lemma from_str_alias_fixed_width:
  assumes "k \<in> {''float16'', ''float32'', ''float64'', ''int8'', ''int16'', ''int32'',
                ''int64'', ''uint8'', ''uint16'', ''uint32'', ''uint64''}"
  shows "\<exists>w. from_str_alias k = Some w \<and> value_literal w = k \<and>
             w \<notin> {Int_dtype, Float, String}"
  using assms by (auto simp: from_str_alias_def from_str_alias_table_def)

lemma str_alias_chars_plain:
  "w \<notin> {Int_dtype, Float, String} \<Longrightarrow> chars (str_alias env w) = value_literal w"
  by (simp add: str_alias_chars)

text \<open>
  C4: when the cached default integer string and the cached default float string are
  among the fixed-width keys of the table, \<open>from_str_alias(str_alias(v))\<close> is, for every
  member \<open>v\<close>, a member (not \<open>None\<close>) whose resolved string is that of \<open>v\<close>. For \<open>Int\<close> and
  \<open>Float\<close> it is the fixed-width member whose value is the cached default string, not
  \<open>Int\<close> or \<open>Float\<close>.
\<close>

theorem from_str_alias_round_trip:
  assumes "chars (DEFAULT_PANDAS_INT_TYPE env) \<in>
             {''float16'', ''float32'', ''float64'', ''int8'', ''int16'', ''int32'',
              ''int64'', ''uint8'', ''uint16'', ''uint32'', ''uint64''}"
    and "chars (DEFAULT_PANDAS_FLOAT_TYPE env) \<in>
             {''float16'', ''float32'', ''float64'', ''int8'', ''int16'', ''int32'',
              ''int64'', ''uint8'', ''uint16'', ''uint32'', ''uint64''}"
  shows "\<exists>w. from_str_alias (chars (str_alias env v)) = Some w \<and>
             chars (str_alias env w) = chars (str_alias env v) \<and>
             (v = Int_dtype \<longrightarrow>
                w \<notin> {Int_dtype, Float} \<and>
                value_literal w = chars (DEFAULT_PANDAS_INT_TYPE env)) \<and>
             (v = Float \<longrightarrow>
                w \<notin> {Int_dtype, Float} \<and>
                value_literal w = chars (DEFAULT_PANDAS_FLOAT_TYPE env))"
proof -
  consider (int) "v = Int_dtype" | (float) "v = Float" | (string) "v = String"
    | (plain) "v \<notin> {Int_dtype, Float, String}"
    by blast
  then show ?thesis
  proof cases
    case int
    from from_str_alias_fixed_width [OF assms(1)] obtain w where
      w: "from_str_alias (chars (DEFAULT_PANDAS_INT_TYPE env)) = Some w"
         "value_literal w = chars (DEFAULT_PANDAS_INT_TYPE env)"
         "w \<notin> {Int_dtype, Float, String}"
      by blast
    from w(3) have "chars (str_alias env w) = value_literal w"
      by (rule str_alias_chars_plain)
    with w int show ?thesis
      by (simp add: str_alias_chars)
  next
    case float
    from from_str_alias_fixed_width [OF assms(2)] obtain w where
      w: "from_str_alias (chars (DEFAULT_PANDAS_FLOAT_TYPE env)) = Some w"
         "value_literal w = chars (DEFAULT_PANDAS_FLOAT_TYPE env)"
         "w \<notin> {Int_dtype, Float, String}"
      by blast
    from w(3) have "chars (str_alias env w) = value_literal w"
      by (rule str_alias_chars_plain)
    with w float show ?thesis
      by (simp add: str_alias_chars)
  next
    case string
    have "from_str_alias ''object'' = Some Object"
      by (simp add: from_str_alias_def from_str_alias_table_def)
    with string show ?thesis
      by (simp add: str_alias_chars)
  next
    case plain
    then have "chars (str_alias env v) = value_literal v"
      by (rule str_alias_chars_plain)
    with plain show ?thesis
      by (simp add: from_str_alias_value_literal)
  qed
qed

theorem from_str_alias_round_trip_witness:
  "chars (DEFAULT_PANDAS_INT_TYPE env64) = ''int64'' \<and>
   chars (DEFAULT_PANDAS_FLOAT_TYPE env64) = ''float64'' \<and>
   from_str_alias (chars (str_alias env64 Int_dtype)) = Some Int64 \<and>
   chars (str_alias env64 Int64) = chars (str_alias env64 Int_dtype) \<and>
   from_str_alias (chars (str_alias env64 Float)) = Some Float64 \<and>
   from_str_alias (chars (str_alias env64 String)) = Some Object \<and>
   from_str_alias (chars (str_alias env64 UInt8)) = Some UInt8"
  using from_str_alias_round_trip [of env64 Int_dtype] from_str_alias_round_trip [of env64 Float]
    from_str_alias_round_trip [of env64 String] from_str_alias_round_trip [of env64 UInt8]
  by (simp add: env64_def str_alias_chars from_str_alias_def from_str_alias_table_def)

subsection \<open>Hash\<close>

lemma dtype_hash_ident: "dtype_hash env t = ident (str_alias env t)"
  by (cases t)
    (simp_all add: dtype_hash_def str_alias_def str_alias_table_def dict_get_default_def
      enum_value_def)

lemma dtype_hash_objects:
  "dtype_hash env Int_dtype = ident (DEFAULT_PANDAS_INT_TYPE env) \<and>
   dtype_hash env Float = ident (DEFAULT_PANDAS_FLOAT_TYPE env) \<and>
   dtype_hash env String = object_const_ident env \<and>
   (t \<notin> {Int_dtype, Float, String} \<longrightarrow> dtype_hash env t = value_ident env t)"
  by (cases t)
    (simp_all add: dtype_hash_def str_alias_def str_alias_table_def dict_get_default_def
      enum_value_def)

text \<open>
  Equal members have equal hashes in a module state where two resolved strings with the
  same characters are always the same object.
\<close>

lemma dtype_hash_consistent_if_shared:
  assumes "\<And>a b. chars (str_alias env a) = chars (str_alias env b) \<Longrightarrow>
                  ident (str_alias env a) = ident (str_alias env b)"
    and "dtype_eq env a (PyDtype b) = Inr True"
  shows "dtype_hash env a = dtype_hash env b"
proof (cases "a = String")
  case True
  with assms(2) show ?thesis
    by (simp add: dtype_eq_PyDtype)
next
  case False
  with assms(2) have "chars (str_alias env a) = chars (str_alias env b)"
    by (simp add: dtype_eq_PyDtype)
  then have "ident (str_alias env a) = ident (str_alias env b)"
    by (rule assms(1))
  then show ?thesis
    by (simp only: dtype_hash_ident)
qed

text \<open>
  C2: the hash is to agree with equality: \<open>a == b\<close> implies \<open>hash(a) == hash(b)\<close>. In the
  module state \<open>env64\<close> it does not: \<open>Int == Int64\<close> and \<open>Int64 == Int\<close> are true, since
  both resolve to the characters \<open>"int64"\<close>, but \<open>hash(Int)\<close> is the identity of the cached
  default string, built at import time, and \<open>hash(Int64)\<close> is the identity of the constant
  \<open>"int64"\<close> of the class body: two objects. The same holds of \<open>Float\<close> and \<open>Float64\<close>.
\<close>

theorem dtype_hash_differs_on_equal_members:
  "dtype_eq env64 Int_dtype (PyDtype Int64) = Inr True \<and>
   dtype_eq env64 Int64 (PyDtype Int_dtype) = Inr True \<and>
   dtype_hash env64 Int_dtype = ident (DEFAULT_PANDAS_INT_TYPE env64) \<and>
   dtype_hash env64 Int64 = ident (str_alias env64 Int64) \<and>
   dtype_hash env64 Int_dtype = 100 \<and>
   dtype_hash env64 Int64 = 12 \<and>
   dtype_hash env64 Int_dtype \<noteq> dtype_hash env64 Int64 \<and>
   dtype_eq env64 Float (PyDtype Float64) = Inr True \<and>
   dtype_hash env64 Float \<noteq> dtype_hash env64 Float64"
  by (simp add: dtype_eq_PyDtype str_alias_chars dtype_hash_ident)
    (simp add: env64_def str_alias_def str_alias_table_def dict_get_default_def enum_value_def)

end
